theory Spec2Isabelle
  imports Complex_Main "HOL-Library.Char_ord" "HOL-Library.List_Lexorder" "HOL-Library.AList"
begin

section \<open>Dataset viewer (src/scripts/datasetViewer.js)\<close>

text \<open>
  One parsed line of the JSONL document. A field that the parsed object does not have is
  \<open>None\<close>; JavaScript treats both a missing field and the empty string as falsy.
  Strings are compared as the source compares them (\<open>===\<close>, and the default order of
  \<open>Array.prototype.sort\<close>, which is the lexicographic order of the code units).
\<close>

record LayoutSample =
  layout_type :: "string option"
  images :: "string list option"

text \<open>The \<open>select\<close> element with id \<open>layout-select\<close>: its option values and its value.\<close>

record select_el =
  sel_options :: "string list"
  sel_value :: string

text \<open>
  What \<open>getSampleHTML\<close> puts into the template: the grid class, the layout type handed to
  \<open>formatLayoutName\<close> for the card title, and the \<open>src\<close> of every image, in order. The
  fixed markup around them is left out. A sample without \<open>layout_type\<close>, on which
  \<open>formatLayoutName\<close> would throw, is never rendered: \<open>filterData\<close> keeps only the samples
  whose \<open>layout_type\<close> is the selected, non-empty layout.
\<close>

record sample_view =
  sv_gridClass :: string
  sv_layout :: "string option"
  sv_srcs :: "string list"

datatype display_content =
    Untouched
  | NoDataHTML
  | SampleHTML sample_view
  | ErrorHTML string

text \<open>The element with id \<open>data-display\<close>: its content and whether it has the class \<open>loaded\<close>.\<close>

record display_el =
  dd_content :: display_content
  dd_loaded :: bool

text \<open>
  The fields of the class \<open>DatasetViewer\<close>, together with the two page elements its methods
  look up (\<open>None\<close> when \<open>getElementById\<close> finds nothing).
\<close>

record DatasetViewer =
  allData :: "LayoutSample list"
  filteredData :: "LayoutSample list"
  currentIndex :: nat
  currentLayout :: string
  availableLayouts :: "string list"
  layoutSelect :: "select_el option"
  dataDisplay :: "display_el option"

definition constructor :: "select_el option \<Rightarrow> display_el option \<Rightarrow> DatasetViewer" where
  "constructor sel disp =
     \<lparr> allData = [], filteredData = [], currentIndex = 0, currentLayout = [],
       availableLayouts = [], layoutSelect = sel, dataDisplay = disp \<rparr>"

text \<open>\<open>Set.prototype.add\<close>: a set keeps its elements in the order of their first insertion.\<close>

definition set_add :: "'a list \<Rightarrow> 'a \<Rightarrow> 'a list" where
  "set_add acc x = (if x \<in> set acc then acc else acc @ [x])"

text \<open>The \<open>forEach\<close> of \<open>populateFilterOptions\<close>: only a truthy \<open>layout_type\<close> is added.\<close>

definition collect_layouts :: "LayoutSample list \<Rightarrow> string list" where
  "collect_layouts items =
     foldl (\<lambda>layouts item.
              (case layout_type item of
                 None \<Rightarrow> layouts
               | Some l \<Rightarrow> if l \<noteq> [] then set_add layouts l else layouts))
           [] items"

text \<open>Assigning to \<open>select.value\<close> selects the option with that value, or none.\<close>

definition set_select_value :: "string \<Rightarrow> select_el \<Rightarrow> select_el" where
  "set_select_value v sel = sel\<lparr>sel_value := (if v \<in> set (sel_options sel) then v else [])\<rparr>"

definition updateFilterSelectors :: "DatasetViewer \<Rightarrow> DatasetViewer" where
  "updateFilterSelectors s =
     (case layoutSelect s of
        None \<Rightarrow> s
      | Some sel \<Rightarrow>
          s\<lparr>layoutSelect :=
               Some (set_select_value (currentLayout s)
                       (sel\<lparr>sel_options := availableLayouts s\<rparr>))\<rparr>)"

definition populateFilterOptions :: "DatasetViewer \<Rightarrow> DatasetViewer" where
  "populateFilterOptions s =
     (let layouts = collect_layouts (allData s);
          s1 = s\<lparr>availableLayouts := sort layouts\<rparr>;
          s2 = (if length (availableLayouts s1) > 0 \<and> currentLayout s1 = []
                then s1\<lparr>currentLayout := availableLayouts s1 ! 0\<rparr>
                else s1)
      in updateFilterSelectors s2)"

definition filterData :: "DatasetViewer \<Rightarrow> DatasetViewer" where
  "filterData s =
     (if currentLayout s = [] then s\<lparr>filteredData := []\<rparr>
      else s\<lparr>filteredData := filter (\<lambda>item. layout_type item = Some (currentLayout s)) (allData s),
             currentIndex := 0\<rparr>)"

definition updateFilterUI :: "DatasetViewer \<Rightarrow> DatasetViewer" where
  "updateFilterUI s =
     (case layoutSelect s of
        None \<Rightarrow> s
      | Some sel \<Rightarrow> s\<lparr>layoutSelect := Some (set_select_value (currentLayout s) sel)\<rparr>)"

definition getSampleHTML :: "LayoutSample \<Rightarrow> sample_view" where
  "getSampleHTML data =
     (let imgs = (case images data of None \<Rightarrow> [] | Some xs \<Rightarrow> xs);
          numImages = length imgs;
          gridClass = (if numImages \<le> 2 then ''images-grid-2col''
                       else if numImages = 3 then ''images-grid-3col''
                       else ''images-grid-4col'')
      in \<lparr> sv_gridClass = gridClass, sv_layout = layout_type data,
           sv_srcs = map (\<lambda>img. ''/data_viewer/'' @ img) imgs \<rparr>)"

definition updateUI :: "DatasetViewer \<Rightarrow> DatasetViewer" where
  "updateUI s =
     (case dataDisplay s of
        None \<Rightarrow> s
      | Some d \<Rightarrow>
          (case filteredData s of
             [] \<Rightarrow> s\<lparr>dataDisplay := Some \<lparr>dd_content = NoDataHTML, dd_loaded = True\<rparr>\<rparr>
           | currentData # _ \<Rightarrow>
               s\<lparr>dataDisplay :=
                    Some \<lparr>dd_content = SampleHTML (getSampleHTML currentData), dd_loaded = True\<rparr>\<rparr>))"

text \<open>\<open>Array.prototype.indexOf\<close>: the first index holding the element, or \<open>-1\<close>.\<close>

fun indexOf :: "'a list \<Rightarrow> 'a \<Rightarrow> int" where
  "indexOf [] x = -1"
| "indexOf (y # ys) x =
     (if y = x then 0 else (let r = indexOf ys x in if r = -1 then -1 else r + 1))"

definition navigateLayout :: "int \<Rightarrow> DatasetViewer \<Rightarrow> DatasetViewer" where
  "navigateLayout direction s =
     (let currentIndex = indexOf (availableLayouts s) (currentLayout s)
      in if currentIndex = -1 then s
         else
           (let len = int (length (availableLayouts s));
                newIndex = currentIndex + direction;
                newIndex = (if newIndex < 0 then len - 1 else newIndex);
                newIndex = (if newIndex \<ge> len then 0 else newIndex);
                s1 = s\<lparr>currentLayout := availableLayouts s ! nat newIndex\<rparr>
            in updateUI (filterData (updateFilterUI s1))))"

definition showError :: "string \<Rightarrow> DatasetViewer \<Rightarrow> DatasetViewer" where
  "showError message s =
     (case dataDisplay s of
        None \<Rightarrow> s
      | Some d \<Rightarrow> s\<lparr>dataDisplay := Some (d\<lparr>dd_content := ErrorHTML message\<rparr>)\<rparr>)"

text \<open>
  \<open>loadData\<close> fetches the document and parses every non-blank line with \<open>JSON.parse\<close>. Its
  outcome is the argument here: \<open>None\<close> when the fetch or a parse threw, else the parsed
  lines in order.
\<close>

definition loadData :: "LayoutSample list option \<Rightarrow> DatasetViewer \<Rightarrow> DatasetViewer option" where
  "loadData parsed s = (case parsed of None \<Rightarrow> None | Some items \<Rightarrow> Some (s\<lparr>allData := items\<rparr>))"

definition init :: "LayoutSample list option \<Rightarrow> DatasetViewer \<Rightarrow> DatasetViewer" where
  "init parsed s =
     (case loadData parsed s of
        None \<Rightarrow> showError ''Failed to load dataset'' s
      | Some s1 \<Rightarrow> updateUI (updateFilterUI (filterData (populateFilterOptions s1))))"

text \<open>The distinct \<open>layout_type\<close> values that occur in the parsed lines.\<close>

definition layout_values :: "LayoutSample list \<Rightarrow> string set" where
  "layout_values items = set (List.map_filter layout_type items)"


section \<open>Trajectory viewer (src/scripts/trajectoryViewer.ts)\<close>

subsection \<open>Numbers\<close>

text \<open>
  A JavaScript number as far as the viewer's arithmetic needs it. Division by zero does not
  throw: \<open>0 / 0\<close> is \<open>NaN\<close> and \<open>x / 0\<close> is an infinity. Finite results are kept as exact
  rationals; the rounding of doubles is not modelled.
\<close>

datatype jsnum = Finite rat | NaN | PosInfinity | NegInfinity

definition js_div :: "int \<Rightarrow> int \<Rightarrow> jsnum" where
  "js_div a b =
     (if b = 0 then (if a = 0 then NaN else if a > 0 then PosInfinity else NegInfinity)
      else Finite (of_int a / of_int b))"

definition js_times_100 :: "jsnum \<Rightarrow> jsnum" where
  "js_times_100 x = (case x of Finite r \<Rightarrow> Finite (r * 100) | other \<Rightarrow> other)"

text \<open>The expression \<open>(i / (totalSteps - 1)) * 100\<close> of both \<open>initializeTimeline\<close> and
  \<open>navigateToStep\<close>.\<close>

definition percentage :: "int \<Rightarrow> int \<Rightarrow> jsnum" where
  "percentage i totalSteps = js_times_100 (js_div i (totalSteps - 1))"

subsection \<open>Data\<close>

record State =
  state_image :: string
  state_description :: string

record Step =
  step_state :: State
  reasoning :: string
  action :: string

record Trajectory =
  traj_name :: string
  traj_description :: string
  totalSteps :: int
  success :: bool
  reasoningScore :: string
  completionTime :: string
  steps :: "Step list"

text \<open>\<open>trajectories\<close> is an object used as a dictionary; the list holds its entries in the
  order \<open>Object.entries\<close> enumerates them.\<close>

record TaskData =
  taskName :: string
  taskDescription :: string
  trajectories :: "(string \<times> Trajectory) list"

record Task =
  task_id :: string
  task_name :: string
  task_description :: string
  dataFile :: string
  thumbnail :: string

record TaskIndex =
  version :: string
  lastUpdated :: string
  tasks :: "Task list"

text \<open>
  The outcome of \<open>await fetch(url)\<close> followed by \<open>response.json()\<close>: the promise is rejected,
  or there is a response with its \<open>ok\<close> flag and the parsed body (\<open>None\<close> when the body is not
  the expected JSON).
\<close>

datatype 'a response = Rejected | Response bool "'a option"

subsection \<open>Page elements\<close>

text \<open>
  A child of the element \<open>timeline-steps\<close>: the progress bar with the number written into
  \<open>style.width\<close>, a step marker with the number written into \<open>style.left\<close>, its
  \<open>dataset.index\<close> and its \<open>className\<close>, the error message, or the loading indicator. A
  number \<open>v\<close> stands for the string \<open>v%\<close> the source assigns.
\<close>

datatype timeline_child =
    ProgressBar jsnum
  | StepMarker jsnum int string
  | ErrorMessage string
  | LoadingIndicator

fun is_marker :: "timeline_child \<Rightarrow> bool" where
  "is_marker (StepMarker l d c) = True"
| "is_marker other = False"

text \<open>
  The variables of the closure \<open>initTrajectoryViewer\<close>, the active interval timers of the
  window (handle, period in ms and the trajectory the callback captured), the URLs handed to
  \<open>fetch\<close> so far, and the page elements, each \<open>None\<close> when \<open>getElementById\<close> (or
  \<open>querySelector\<close> for the two icons) finds nothing. An element that shows a number holds
  that number; \<open>successValueElement\<close> holds its text and its class name; a button holds
  its \<open>disabled\<close> flag; an icon holds its \<open>style.display\<close>; a select holds the value and text
  of each option.
\<close>

record Viewer =
  availableTasks :: "Task list"
  taskData :: "(string \<times> TaskData) list"
  currentTaskId :: string
  currentTrajectoryId :: string
  currentStepIndex :: int
  isPlaying :: bool
  playInterval :: "nat option"
  intervals :: "(nat \<times> nat \<times> Trajectory) list"
  fetched :: "string list"
  taskSelect :: "(string \<times> string) list option"
  trajectorySelect :: "(string \<times> string) list option"
  timelineStepsContainer :: "timeline_child list option"
  currentStepElement :: "int option"
  totalStepsElement :: "int option"
  stateImageElement :: "string option"
  stateTextElement :: "string option"
  reasoningTextElement :: "string option"
  actionTextElement :: "string option"
  successValueElement :: "(string \<times> string) option"
  totalStepsValueElement :: "int option"
  reasoningScoreElement :: "string option"
  completionTimeElement :: "string option"
  prevStepButton :: "bool option"
  nextStepButton :: "bool option"
  playIcon :: "string option"
  pauseIcon :: "string option"

text \<open>\<open>if (el) el.prop = v\<close>: nothing happens when the element is missing.\<close>

definition assign :: "'a \<Rightarrow> 'a option \<Rightarrow> 'a option" where
  "assign v el = (case el of None \<Rightarrow> None | Some old \<Rightarrow> Some v)"

text \<open>\<open>a || b\<close> on strings: the empty string is falsy.\<close>

definition or_else :: "string \<Rightarrow> string \<Rightarrow> string" where
  "or_else a b = (if a \<noteq> [] then a else b)"

subsection \<open>Operations\<close>

definition showErrorMessage :: "string \<Rightarrow> Viewer \<Rightarrow> Viewer" where
  "showErrorMessage message s =
     s\<lparr>timelineStepsContainer := assign [ErrorMessage message] (timelineStepsContainer s)\<rparr>"

definition showLoading :: "Viewer \<Rightarrow> Viewer" where
  "showLoading s =
     s\<lparr>timelineStepsContainer := assign [LoadingIndicator] (timelineStepsContainer s)\<rparr>"

text \<open>The \<open>forEach\<close> over \<open>querySelectorAll('.timeline-step')\<close>: \<open>index\<close> counts the markers.\<close>

fun mark_steps :: "int \<Rightarrow> int \<Rightarrow> timeline_child list \<Rightarrow> timeline_child list" where
  "mark_steps stepIndex index [] = []"
| "mark_steps stepIndex index (StepMarker l d c # cs) =
     StepMarker l d
       (if index < stepIndex then ''timeline-step completed''
        else if index = stepIndex then ''timeline-step active''
        else ''timeline-step'')
     # mark_steps stepIndex (index + 1) cs"
| "mark_steps stepIndex index (c # cs) = c # mark_steps stepIndex index cs"

text \<open>\<open>querySelector('.timeline-progress')\<close> is the first progress bar, if there is one.\<close>

fun set_progress :: "jsnum \<Rightarrow> timeline_child list \<Rightarrow> timeline_child list" where
  "set_progress w [] = []"
| "set_progress w (ProgressBar old # cs) = ProgressBar w # cs"
| "set_progress w (c # cs) = c # set_progress w cs"

definition navigateToStep :: "int \<Rightarrow> Viewer \<Rightarrow> Viewer" where
  "navigateToStep stepIndex s =
     (if currentTaskId s = [] \<or> currentTrajectoryId s = [] then s
      else case map_of (taskData s) (currentTaskId s) of
        None \<Rightarrow> s
      | Some currentTask \<Rightarrow>
     (case map_of (trajectories currentTask) (currentTrajectoryId s) of
        None \<Rightarrow> s
      | Some trajectory \<Rightarrow>
     (let total = int (length (steps trajectory))
      in if stepIndex < 0 \<or> stepIndex \<ge> total then s
         else
           (let step = steps trajectory ! nat stepIndex
            in s\<lparr>currentStepIndex := stepIndex,
                 currentStepElement := assign (stepIndex + 1) (currentStepElement s),
                 timelineStepsContainer :=
                   map_option (\<lambda>children.
                       set_progress (percentage stepIndex total) (mark_steps stepIndex 0 children))
                     (timelineStepsContainer s),
                 stateImageElement :=
                   assign (or_else (state_image (step_state step)) ''/placeholder-state.png'')
                     (stateImageElement s),
                 stateTextElement :=
                   assign (or_else (state_description (step_state step)) []) (stateTextElement s),
                 reasoningTextElement :=
                   assign (''<p>'' @ or_else (reasoning step) [] @ ''</p>'') (reasoningTextElement s),
                 actionTextElement := assign (or_else (action step) []) (actionTextElement s),
                 prevStepButton := assign (stepIndex = 0) (prevStepButton s),
                 nextStepButton := assign (stepIndex = total - 1) (nextStepButton s)\<rparr>))))"

definition initializeTimeline :: "Viewer \<Rightarrow> Viewer" where
  "initializeTimeline s =
     (if timelineStepsContainer s = None \<or> currentTaskId s = [] \<or> currentTrajectoryId s = []
      then s
      else case map_of (taskData s) (currentTaskId s) of
        None \<Rightarrow> s
      | Some currentTask \<Rightarrow>
     (case map_of (trajectories currentTask) (currentTrajectoryId s) of
        None \<Rightarrow> s
      | Some trajectory \<Rightarrow>
     (let total = int (length (steps trajectory));
          markers = map (\<lambda>i. StepMarker (percentage i total) i ''timeline-step'')
                      (map int [0 ..< length (steps trajectory)]);
          s1 = s\<lparr>timelineStepsContainer := Some (ProgressBar (Finite 0) # markers),
                 currentStepElement := assign 1 (currentStepElement s),
                 totalStepsElement := assign total (totalStepsElement s),
                 totalStepsValueElement := assign total (totalStepsValueElement s),
                 successValueElement :=
                   assign (if success trajectory then (''Yes'', ''metric-value success'')
                           else (''No'', ''metric-value failure''))
                     (successValueElement s),
                 reasoningScoreElement :=
                   assign (or_else (reasoningScore trajectory) ''N/A'') (reasoningScoreElement s),
                 completionTimeElement :=
                   assign (or_else (completionTime trajectory) ''N/A'') (completionTimeElement s)\<rparr>
      in navigateToStep 0 s1)))"

text \<open>
  \<open>loadTaskData\<close>, run to completion with \<open>fetch\<close> answering as the argument says. Every
  \<open>throw\<close> of the \<open>try\<close> block ends in the \<open>catch\<close>, which shows the error message.
\<close>

definition loadTaskData :: "(string \<Rightarrow> TaskData response) \<Rightarrow> string \<Rightarrow> Viewer \<Rightarrow> Viewer" where
  "loadTaskData fetch taskId s =
     (let catch = showErrorMessage
                    (''Failed to load data for '' @ taskId @ ''. Please try again later.'');
          s0 = showLoading s
      in case find (\<lambda>task. task_id task = taskId) (availableTasks s0) of
           None \<Rightarrow> catch s0
         | Some taskInfo \<Rightarrow>
     (let s1 = s0\<lparr>fetched := fetched s0 @ [dataFile taskInfo]\<rparr>
      in case fetch (dataFile taskInfo) of
           Rejected \<Rightarrow> catch s1
         | Response ok body \<Rightarrow>
             if \<not> ok then catch s1
             else (case body of
               None \<Rightarrow> catch s1
             | Some data \<Rightarrow>
     (let s2 = s1\<lparr>taskData := AList.update taskId data (taskData s1),
                  currentTaskId := taskId\<rparr>
      in case trajectorySelect s2 of
           None \<Rightarrow> s2
         | Some old \<Rightarrow>
             (let opts = map (\<lambda>(id, trajectory). (id, or_else (traj_name trajectory) id))
                           (trajectories data);
                  s3 = s2\<lparr>trajectorySelect := Some opts\<rparr>
              in if length opts > 0
                 then initializeTimeline (s3\<lparr>currentTrajectoryId := fst (opts ! 0)\<rparr>)
                 else s3)))))"

definition index_url :: string where
  "index_url = ''/data/trajectories/qwen2.5-0.5b/index.json''"

definition loadTaskIndex ::
  "TaskIndex response \<Rightarrow> (string \<Rightarrow> TaskData response) \<Rightarrow> Viewer \<Rightarrow> Viewer" where
  "loadTaskIndex index_response fetch s =
     (let catch = showErrorMessage ''Failed to load tasks. Please try again later.'';
          s0 = (showLoading s)\<lparr>fetched := fetched s @ [index_url]\<rparr>
      in case index_response of
           Rejected \<Rightarrow> catch s0
         | Response ok body \<Rightarrow>
             if \<not> ok then catch s0
             else (case body of
               None \<Rightarrow> catch s0
             | Some data \<Rightarrow>
     (let s1 = s0\<lparr>availableTasks := tasks data\<rparr>
      in case taskSelect s1 of
           None \<Rightarrow> s1
         | Some old \<Rightarrow>
             (let s2 = s1\<lparr>taskSelect :=
                           Some (map (\<lambda>task. (task_id task, task_name task)) (availableTasks s1))\<rparr>
              in if length (availableTasks s2) > 0
                 then loadTaskData fetch (task_id (availableTasks s2 ! 0)) s2
                 else s2))))"








text \<open>The handlers that \<open>initializeControls\<close> registers.\<close>

definition prevStepClick :: "Viewer \<Rightarrow> Viewer" where
  "prevStepClick s =
     (if currentStepIndex s > 0 then navigateToStep (currentStepIndex s - 1) s else s)"

definition nextStepClick :: "Viewer \<Rightarrow> Viewer" where
  "nextStepClick s =
     (if currentTaskId s = [] \<or> currentTrajectoryId s = [] then s
      else case map_of (taskData s) (currentTaskId s) of
        None \<Rightarrow> s
      | Some currentTask \<Rightarrow>
     (case map_of (trajectories currentTask) (currentTrajectoryId s) of
        None \<Rightarrow> s
      | Some trajectory \<Rightarrow>
          if currentStepIndex s < int (length (steps trajectory)) - 1
          then navigateToStep (currentStepIndex s + 1) s
          else s))"

definition taskSelectChange :: "(string \<Rightarrow> TaskData response) \<Rightarrow> string \<Rightarrow> Viewer \<Rightarrow> Viewer" where
  "taskSelectChange fetch v s = loadTaskData fetch v s"


text \<open>The trajectory that the current task and trajectory ids select, as every operation
  above looks it up.\<close>

definition currentTrajectory :: "Viewer \<Rightarrow> Trajectory option" where
  "currentTrajectory s =
     (if currentTaskId s = [] \<or> currentTrajectoryId s = [] then None
      else case map_of (taskData s) (currentTaskId s) of
        None \<Rightarrow> None
      | Some currentTask \<Rightarrow> map_of (trajectories currentTask) (currentTrajectoryId s))"

text \<open>The same viewer with the \<open>totalSteps\<close> field of every cached trajectory replaced.\<close>

definition with_totalSteps :: "(Trajectory \<Rightarrow> int) \<Rightarrow> Viewer \<Rightarrow> Viewer" where
  "with_totalSteps f s =
     s\<lparr>taskData :=
         map (\<lambda>(taskId, data).
                (taskId, data\<lparr>trajectories :=
                   map (\<lambda>(id, trajectory). (id, trajectory\<lparr>totalSteps := f trajectory\<rparr>))
                     (trajectories data)\<rparr>))
           (taskData s)\<rparr>"

text \<open>The state of the closure before \<open>init\<close> runs, on a page with the given elements.\<close>

definition initTrajectoryViewer :: "Viewer \<Rightarrow> Viewer" where
  "initTrajectoryViewer page =
     page\<lparr>availableTasks := [], taskData := [], currentTaskId := [], currentTrajectoryId := [],
          currentStepIndex := 0, isPlaying := False, playInterval := None\<rparr>"

section \<open>Citation copy (initCitationCopy)\<close>











section \<open>Auxiliary notions for the statements\<close>

text \<open>
  \<open>loadTaskData\<close> fails when the task id is not in the index, when \<open>fetch\<close> rejects, when
  the response is not \<open>ok\<close>, or when its body does not parse.
\<close>

definition load_fails :: "(string \<Rightarrow> TaskData response) \<Rightarrow> string \<Rightarrow> Viewer \<Rightarrow> bool" where
  "load_fails fetch taskId s =
     (case find (\<lambda>task. task_id task = taskId) (availableTasks s) of
        None \<Rightarrow> True
      | Some taskInfo \<Rightarrow>
          (case fetch (dataFile taskInfo) of
             Rejected \<Rightarrow> True
           | Response ok body \<Rightarrow> (if ok then body = None else True)))"


subsection \<open>Concrete inputs\<close>

definition example_step :: "string \<Rightarrow> Step" where
  "example_step a =
     \<lparr> step_state = \<lparr> state_image = ''img/'' @ a, state_description = ''at '' @ a \<rparr>,
       reasoning = ''because'', action = a \<rparr>"

text \<open>A trajectory whose \<open>totalSteps\<close> field (99) says nothing about its \<open>steps\<close>.\<close>

definition example_trajectory :: "Step list \<Rightarrow> Trajectory" where
  "example_trajectory ss =
     \<lparr> traj_name = ''Run 1'', traj_description = [], totalSteps = 99, success = True,
       reasoningScore = ''0.9'', completionTime = [], steps = ss \<rparr>"

definition example_data :: "Step list \<Rightarrow> TaskData" where
  "example_data ss =
     \<lparr> taskName = ''Task 1'', taskDescription = [],
       trajectories = [(''run1'', example_trajectory ss)] \<rparr>"

definition example_tasks :: "Task list" where
  "example_tasks =
     [\<lparr> task_id = ''t1'', task_name = ''Task 1'', task_description = [],
        dataFile = ''/data/t1.json'', thumbnail = [] \<rparr>,
      \<lparr> task_id = ''t2'', task_name = ''Task 2'', task_description = [],
        dataFile = ''/data/t2.json'', thumbnail = [] \<rparr>]"

text \<open>A server that has the data of task \<open>t1\<close> and answers 404 for everything else.\<close>

definition example_fetch :: "Step list \<Rightarrow> string \<Rightarrow> TaskData response" where
  "example_fetch ss url =
     (if url = ''/data/t1.json'' then Response True (Some (example_data ss))
      else Response False None)"

text \<open>A page with every element, after the index is loaded and before any task data is.\<close>

definition example_page :: Viewer where
  "example_page =
     \<lparr> availableTasks = example_tasks, taskData = [], currentTaskId = [],
       currentTrajectoryId = [], currentStepIndex = 0, isPlaying = False, playInterval = None,
       intervals = [], fetched = [index_url],
       taskSelect = Some [(''t1'', ''Task 1''), (''t2'', ''Task 2'')],
       trajectorySelect = Some [], timelineStepsContainer = Some [LoadingIndicator],
       currentStepElement = Some 0, totalStepsElement = Some 0, stateImageElement = Some [],
       stateTextElement = Some [], reasoningTextElement = Some [], actionTextElement = Some [],
       successValueElement = Some ([], []), totalStepsValueElement = Some 0,
       reasoningScoreElement = Some [], completionTimeElement = Some [],
       prevStepButton = Some False, nextStepButton = Some False,
       playIcon = Some ''block'', pauseIcon = Some ''none'' \<rparr>"

text \<open>The same page with task \<open>t1\<close> cached and its trajectory \<open>run1\<close> selected.\<close>

definition example_viewer :: "Step list \<Rightarrow> Viewer" where
  "example_viewer ss =
     example_page\<lparr>taskData := [(''t1'', example_data ss)], currentTaskId := ''t1'',
                  currentTrajectoryId := ''run1''\<rparr>"





section \<open>Dataset viewer: layouts, navigation and the grid\<close>

lemma set_set_add: "set (set_add acc x) = insert x (set acc)"
  by (auto simp: set_add_def)

lemma distinct_set_add: "distinct acc \<Longrightarrow> distinct (set_add acc x)"
  by (auto simp: set_add_def)

lemma set_collect_fold:
  "set (foldl (\<lambda>layouts item.
              (case layout_type item of
                 None \<Rightarrow> layouts
               | Some l \<Rightarrow> if l \<noteq> [] then set_add layouts l else layouts)) acc items)
   = set acc \<union> {l. l \<noteq> [] \<and> Some l \<in> layout_type ` set items}"
proof (induction items arbitrary: acc)
  case Nil
  then show ?case by simp
next
  case (Cons item items)
  show ?case
    by (cases "layout_type item") (auto simp: Cons.IH set_set_add)
qed

lemma distinct_collect_fold:
  "distinct acc \<Longrightarrow> distinct (foldl (\<lambda>layouts item.
              (case layout_type item of
                 None \<Rightarrow> layouts
               | Some l \<Rightarrow> if l \<noteq> [] then set_add layouts l else layouts)) acc items)"
proof (induction items arbitrary: acc)
  case Nil
  then show ?case by simp
next
  case (Cons item items)
  show ?case
    by (cases "layout_type item") (auto intro!: Cons.IH simp: Cons.prems distinct_set_add)
qed

lemma set_collect_layouts:
  "set (collect_layouts items) = {l. l \<noteq> [] \<and> Some l \<in> layout_type ` set items}"
  by (simp add: collect_layouts_def set_collect_fold)

lemma distinct_collect_layouts: "distinct (collect_layouts items)"
  by (simp add: collect_layouts_def distinct_collect_fold)

lemma layout_values_image: "layout_values items = {l. Some l \<in> layout_type ` set items}"
proof (induction items)
  case Nil
  then show ?case by (simp add: layout_values_def List.map_filter_def)
next
  case (Cons item items)
  then show ?case
    by (cases "layout_type item") (auto simp: layout_values_def List.map_filter_def)
qed

lemma sort_eq_Nil: "sort xs = [] \<longleftrightarrow> xs = []"
  by (metis length_sort length_0_conv)

lemma updateFilterSelectors_fields:
  "availableLayouts (updateFilterSelectors s) = availableLayouts s"
  "currentLayout (updateFilterSelectors s) = currentLayout s"
  by (simp_all add: updateFilterSelectors_def split: option.splits)

lemma availableLayouts_populateFilterOptions:
  "availableLayouts (populateFilterOptions s) = sort (collect_layouts (allData s))"
  by (simp add: populateFilterOptions_def Let_def updateFilterSelectors_fields)

lemma currentLayout_populateFilterOptions:
  "currentLayout (populateFilterOptions s) =
     (if collect_layouts (allData s) \<noteq> [] \<and> currentLayout s = []
      then sort (collect_layouts (allData s)) ! 0 else currentLayout s)"
  by (simp add: populateFilterOptions_def Let_def updateFilterSelectors_fields sort_eq_Nil)

lemma render_keeps_selection:
  "availableLayouts (updateUI s) = availableLayouts s"
  "currentLayout (updateUI s) = currentLayout s"
  "availableLayouts (updateFilterUI s) = availableLayouts s"
  "currentLayout (updateFilterUI s) = currentLayout s"
  "availableLayouts (filterData s) = availableLayouts s"
  "currentLayout (filterData s) = currentLayout s"
  by (simp_all add: updateUI_def updateFilterUI_def filterData_def
      split: option.splits list.splits)

lemma availableLayouts_init:
  "availableLayouts (init (Some items) s) = sort (collect_layouts items)"
  by (simp add: init_def loadData_def render_keeps_selection
      availableLayouts_populateFilterOptions)

lemma currentLayout_init:
  "currentLayout (init (Some items) s) =
     (if collect_layouts items \<noteq> [] \<and> currentLayout s = []
      then sort (collect_layouts items) ! 0 else currentLayout s)"
  by (simp add: init_def loadData_def render_keeps_selection
      currentLayout_populateFilterOptions)

text \<open>
  C6, as the claim states it, fails: a line whose \<open>layout_type\<close> is the empty string has a
  \<open>layout_type\<close> value that is present and is not a selectable layout, because
  \<open>populateFilterOptions\<close> adds truthy values only.
\<close>

theorem layouts_differ_from_values_present:
  "set (availableLayouts
          (init (Some [\<lparr> layout_type = Some [], images = Some [''a.png''] \<rparr>])
             (constructor None None)))
   \<noteq> layout_values [\<lparr> layout_type = Some [], images = Some [''a.png''] \<rparr>]"
  by (simp add: availableLayouts_init collect_layouts_def layout_values_def
      List.map_filter_def)

text \<open>
  C6 (amended): after a load, the selectable layouts are the distinct non-empty
  \<open>layout_type\<close> values present, sorted ascending without repetition; when no layout was
  chosen before, the selection is the first of them (and stays empty when there is none).
\<close>

theorem selectable_layouts_sorted_nonempty_values:
  "set (availableLayouts (init (Some items) s)) = layout_values items - {[]} \<and>
   sorted (availableLayouts (init (Some items) s)) \<and>
   distinct (availableLayouts (init (Some items) s)) \<and>
   currentLayout (init (Some items) (s\<lparr>currentLayout := []\<rparr>)) =
     (case availableLayouts (init (Some items) s) of [] \<Rightarrow> [] | first # rest \<Rightarrow> first)"
proof -
  have "set (availableLayouts (init (Some items) s)) = layout_values items - {[]}"
    by (auto simp: availableLayouts_init set_collect_layouts layout_values_image)
  moreover have "sorted (availableLayouts (init (Some items) s))"
    by (simp add: availableLayouts_init)
  moreover have "distinct (availableLayouts (init (Some items) s))"
    by (simp add: availableLayouts_init distinct_collect_layouts)
  moreover have "currentLayout (init (Some items) (s\<lparr>currentLayout := []\<rparr>)) =
     (case availableLayouts (init (Some items) s) of [] \<Rightarrow> [] | first # rest \<Rightarrow> first)"
  proof (cases "collect_layouts items = []")
    case True
    then show ?thesis by (simp add: availableLayouts_init currentLayout_init)
  next
    case False
    then obtain first rest where "sort (collect_layouts items) = first # rest"
      by (cases "sort (collect_layouts items)") (simp_all add: sort_eq_Nil)
    with False show ?thesis by (simp add: availableLayouts_init currentLayout_init)
  qed
  ultimately show ?thesis by blast
qed

theorem selectable_layouts_witness:
  "availableLayouts
     (init (Some [\<lparr> layout_type = Some ''4room'', images = Some [''a.png'', ''b.png''] \<rparr>,
                  \<lparr> layout_type = Some ''3room'', images = Some [''c.png''] \<rparr>])
        (constructor None None)) = [''3room'', ''4room''] \<and>
   currentLayout
     (init (Some [\<lparr> layout_type = Some ''4room'', images = Some [''a.png'', ''b.png''] \<rparr>,
                  \<lparr> layout_type = Some ''3room'', images = Some [''c.png''] \<rparr>])
        ((constructor None None)\<lparr>currentLayout := []\<rparr>)) = ''3room''"
proof -
  let ?items = "[\<lparr> layout_type = Some ''4room'', images = Some [''a.png'', ''b.png''] \<rparr>,
                 \<lparr> layout_type = Some ''3room'', images = Some [''c.png''] \<rparr>]"
  have a: "availableLayouts (init (Some ?items) (constructor None None)) = [''3room'', ''4room'']"
    by (simp add: availableLayouts_init collect_layouts_def set_add_def
        less_eq_char_def less_char_def)
  from selectable_layouts_sorted_nonempty_values [of ?items "constructor None None"]
  have "currentLayout (init (Some ?items) ((constructor None None)\<lparr>currentLayout := []\<rparr>)) =
     (case availableLayouts (init (Some ?items) (constructor None None)) of
        [] \<Rightarrow> [] | first # rest \<Rightarrow> first)"
    by blast
  with a show ?thesis by simp
qed

lemma indexOf_nth: "distinct xs \<Longrightarrow> i < length xs \<Longrightarrow> indexOf xs (xs ! i) = int i"
proof (induction xs arbitrary: i)
  case Nil
  then show ?case by simp
next
  case (Cons y ys)
  show ?case
  proof (cases i)
    case 0
    then show ?thesis by simp
  next
    case (Suc j)
    with Cons.prems have j: "j < length ys" and d: "distinct ys" and ne: "y \<noteq> ys ! j"
      by auto
    from Cons.IH [OF d j] have "indexOf ys (ys ! j) = int j" .
    with Suc ne show ?thesis by (simp add: Let_def)
  qed
qed

text \<open>
  C7: in a list of layouts without repetition (as \<open>populateFilterOptions\<close> builds it), with
  the layout at position \<open>i\<close> selected, \<open>navigateLayout 1\<close> selects the first layout when
  \<open>i\<close> is the last position and the layout at \<open>i + 1\<close> otherwise; \<open>navigateLayout (-1)\<close>
  selects the last layout when \<open>i\<close> is the first position and the layout at \<open>i - 1\<close>
  otherwise. The list itself does not change.
\<close>

theorem navigateLayout_wraps:
  assumes "distinct (availableLayouts s)" and "i < length (availableLayouts s)"
    and "currentLayout s = availableLayouts s ! i"
  shows "currentLayout (navigateLayout 1 s) =
           (if i = length (availableLayouts s) - 1 then availableLayouts s ! 0
            else availableLayouts s ! (i + 1)) \<and>
         currentLayout (navigateLayout (- 1) s) =
           (if i = 0 then availableLayouts s ! (length (availableLayouts s) - 1)
            else availableLayouts s ! (i - 1)) \<and>
         availableLayouts (navigateLayout 1 s) = availableLayouts s \<and>
         availableLayouts (navigateLayout (- 1) s) = availableLayouts s"
proof -
  have ix: "indexOf (availableLayouts s) (currentLayout s) = int i"
    using assms by (simp add: indexOf_nth)
  have "currentLayout (navigateLayout 1 s) =
           (if i = length (availableLayouts s) - 1 then availableLayouts s ! 0
            else availableLayouts s ! (i + 1))"
    using assms(2)
    by (auto simp: navigateLayout_def ix Let_def nat_add_distrib render_keeps_selection)
  moreover have "currentLayout (navigateLayout (- 1) s) =
           (if i = 0 then availableLayouts s ! (length (availableLayouts s) - 1)
            else availableLayouts s ! (i - 1))"
    using assms(2)
    by (auto simp: navigateLayout_def ix Let_def nat_diff_distrib render_keeps_selection)
  moreover have "availableLayouts (navigateLayout 1 s) = availableLayouts s"
    by (simp add: navigateLayout_def Let_def render_keeps_selection)
  moreover have "availableLayouts (navigateLayout (- 1) s) = availableLayouts s"
    by (simp add: navigateLayout_def Let_def render_keeps_selection)
  ultimately show ?thesis by blast
qed

theorem navigateLayout_wraps_witness:
  "currentLayout (navigateLayout 1
      ((constructor None None)\<lparr>availableLayouts := [''3room'', ''4room'', ''5room''],
                                currentLayout := ''5room''\<rparr>)) = ''3room'' \<and>
   currentLayout (navigateLayout (- 1)
      ((constructor None None)\<lparr>availableLayouts := [''3room'', ''4room'', ''5room''],
                                currentLayout := ''5room''\<rparr>)) = ''4room''"
  using navigateLayout_wraps
    [of "(constructor None None)\<lparr>availableLayouts := [''3room'', ''4room'', ''5room''],
                                  currentLayout := ''5room''\<rparr>" 2]
  by (simp add: constructor_def)

text \<open>
  C9: the grid class that \<open>getSampleHTML\<close> renders depends on the number of images only:
  one or two images give the 2-column grid, three the 3-column grid, four or more the
  4-column grid; so 1, 2, 3, 4, 5 images give 2col, 2col, 3col, 4col, 4col. (A sample
  without images gets the 2-column grid as well.)
\<close>

theorem grid_class_by_image_count:
  "sv_gridClass (getSampleHTML \<lparr> layout_type = l, images = Some imgs \<rparr>) =
     (if length imgs = 1 \<or> length imgs = 2 then ''images-grid-2col''
      else if length imgs = 3 then ''images-grid-3col''
      else if 4 \<le> length imgs then ''images-grid-4col''
      else ''images-grid-2col'') \<and>
   map (\<lambda>imgs. sv_gridClass (getSampleHTML \<lparr> layout_type = l, images = Some imgs \<rparr>))
     [[a], [a, b], [a, b, c], [a, b, c, d], [a, b, c, d, e]] =
     [''images-grid-2col'', ''images-grid-2col'', ''images-grid-3col'',
      ''images-grid-4col'', ''images-grid-4col'']"
  by (auto simp: getSampleHTML_def Let_def)

theorem grid_class_witness:
  "sv_gridClass (getSampleHTML \<lparr> layout_type = Some ''3room'',
      images = Some [''a.png'', ''b.png'', ''c.png''] \<rparr>) = ''images-grid-3col'' \<and>
   sv_gridClass (getSampleHTML \<lparr> layout_type = Some ''3room'',
      images = Some [''a.png'', ''b.png'', ''c.png'', ''d.png'', ''e.png'', ''f.png''] \<rparr>)
     = ''images-grid-4col''"
  using grid_class_by_image_count [of "Some ''3room''" "[''a.png'', ''b.png'', ''c.png'']"]
    grid_class_by_image_count
      [of "Some ''3room''" "[''a.png'', ''b.png'', ''c.png'', ''d.png'', ''e.png'', ''f.png'']"]
  by simp


section \<open>Trajectory viewer: navigation\<close>

lemma assign_assign: "assign v (assign w el) = assign v el"
  by (simp add: assign_def split: option.splits)

lemma set_progress_twice: "set_progress w (set_progress v cs) = set_progress w cs"
  by (induction v cs rule: set_progress.induct) simp_all

lemma mark_steps_twice: "mark_steps i k (mark_steps j k cs) = mark_steps i k cs"
  by (induction j k cs rule: mark_steps.induct) simp_all

lemma mark_steps_set_progress:
  "mark_steps i k (set_progress w cs) = set_progress w (mark_steps i k cs)"
  by (induction i k cs rule: mark_steps.induct) simp_all

lemma navigateToStep_keeps_selection:
  "taskData (navigateToStep i s) = taskData s"
  "currentTaskId (navigateToStep i s) = currentTaskId s"
  "currentTrajectoryId (navigateToStep i s) = currentTrajectoryId s"
  "intervals (navigateToStep i s) = intervals s"
  "playInterval (navigateToStep i s) = playInterval s"
  "isPlaying (navigateToStep i s) = isPlaying s"
  "fetched (navigateToStep i s) = fetched s"
  by (simp_all add: navigateToStep_def Let_def split: option.splits)

lemma currentTrajectory_navigateToStep:
  "currentTrajectory (navigateToStep i s) = currentTrajectory s"
  by (simp add: currentTrajectory_def navigateToStep_keeps_selection split: option.splits)

text \<open>\<open>navigateToStep\<close> in terms of the trajectory it looks up.\<close>

lemma navigateToStep_current:
  "navigateToStep i s =
     (case currentTrajectory s of
        None \<Rightarrow> s
      | Some trajectory \<Rightarrow>
          (let total = int (length (steps trajectory))
           in if i < 0 \<or> i \<ge> total then s
              else
                (let step = steps trajectory ! nat i
                 in s\<lparr>currentStepIndex := i,
                      currentStepElement := assign (i + 1) (currentStepElement s),
                      timelineStepsContainer :=
                        map_option (\<lambda>children.
                            set_progress (percentage i total) (mark_steps i 0 children))
                          (timelineStepsContainer s),
                      stateImageElement :=
                        assign (or_else (state_image (step_state step))
                                  ''/placeholder-state.png'')
                          (stateImageElement s),
                      stateTextElement :=
                        assign (or_else (state_description (step_state step)) [])
                          (stateTextElement s),
                      reasoningTextElement :=
                        assign (''<p>'' @ or_else (reasoning step) [] @ ''</p>'')
                          (reasoningTextElement s),
                      actionTextElement := assign (or_else (action step) []) (actionTextElement s),
                      prevStepButton := assign (i = 0) (prevStepButton s),
                      nextStepButton := assign (i = total - 1) (nextStepButton s)\<rparr>)))"
  by (simp add: navigateToStep_def currentTrajectory_def Let_def split: option.splits)

lemma navigateToStep_out_of_range:
  "currentTrajectory s = Some tr \<Longrightarrow> i < 0 \<or> int (length (steps tr)) \<le> i \<Longrightarrow>
   navigateToStep i s = s"
  by (auto simp: navigateToStep_current Let_def)

lemma navigateToStep_no_trajectory: "currentTrajectory s = None \<Longrightarrow> navigateToStep i s = s"
  by (simp add: navigateToStep_current)

lemma navigateToStep_in_range:
  "currentTrajectory s = Some tr \<Longrightarrow> 0 \<le> i \<Longrightarrow> i < int (length (steps tr)) \<Longrightarrow>
   currentStepIndex (navigateToStep i s) = i"
  by (simp add: navigateToStep_current Let_def)

lemma navigateToStep_twice: "navigateToStep i (navigateToStep i s) = navigateToStep i s"
proof (cases "currentTrajectory s")
  case None
  then show ?thesis by (simp add: navigateToStep_no_trajectory)
next
  case (Some tr)
  show ?thesis
  proof (cases "i < 0 \<or> int (length (steps tr)) \<le> i")
    case True
    with Some show ?thesis by (simp add: navigateToStep_out_of_range)
  next
    case False
    have cur: "currentTrajectory (navigateToStep i s) = Some tr"
      using Some by (simp add: currentTrajectory_navigateToStep)
    show ?thesis
      apply (subst navigateToStep_current [of i "navigateToStep i s"])
      apply (simp only: cur option.case)
      using False Some
      apply (simp add: navigateToStep_current Let_def assign_assign option.map_comp comp_def
          mark_steps_set_progress set_progress_twice mark_steps_twice)
      done
  qed
qed

lemma example_current: "currentTrajectory (example_viewer ss) = Some (example_trajectory ss)"
  by (simp add: currentTrajectory_def example_viewer_def example_page_def example_data_def)

text \<open>
  C5: with a trajectory loaded, \<open>navigateToStep i\<close> leaves the whole viewer (closure
  variables and page elements alike) as it is when \<open>i\<close> is negative or not below the number
  of steps; and \<open>navigateToStep i\<close> is idempotent: once it has run, so that \<open>i\<close> is the current
  step, running it again changes nothing.
\<close>

theorem navigateToStep_noop_and_idempotent:
  "(currentTrajectory s = Some tr \<and> (i < 0 \<or> int (length (steps tr)) \<le> i)
      \<longrightarrow> navigateToStep i s = s) \<and>
   navigateToStep i (navigateToStep i s) = navigateToStep i s"
  using navigateToStep_out_of_range [of s tr i] navigateToStep_twice [of i s] by blast

theorem navigateToStep_noop_witness:
  "currentTrajectory (example_viewer [example_step ''a'', example_step ''b''])
     = Some (example_trajectory [example_step ''a'', example_step ''b'']) \<and>
   navigateToStep 2 (example_viewer [example_step ''a'', example_step ''b''])
     = example_viewer [example_step ''a'', example_step ''b''] \<and>
   navigateToStep (- 1) (example_viewer [example_step ''a'', example_step ''b''])
     = example_viewer [example_step ''a'', example_step ''b''] \<and>
   currentStepIndex (navigateToStep 1 (example_viewer [example_step ''a'', example_step ''b'']))
     = 1 \<and>
   navigateToStep 1 (navigateToStep 1 (example_viewer [example_step ''a'', example_step ''b'']))
     = navigateToStep 1 (example_viewer [example_step ''a'', example_step ''b''])"
proof -
  let ?s = "example_viewer [example_step ''a'', example_step ''b'']"
  let ?tr = "example_trajectory [example_step ''a'', example_step ''b'']"
  have cur: "currentTrajectory ?s = Some ?tr" by (rule example_current)
  have len: "int (length (steps ?tr)) = 2" by (simp add: example_trajectory_def)
  have "navigateToStep 2 ?s = ?s"
    using navigateToStep_noop_and_idempotent [of ?s ?tr 2] cur len by simp
  moreover have "navigateToStep (- 1) ?s = ?s"
    using navigateToStep_noop_and_idempotent [of ?s ?tr "- 1"] cur by simp
  moreover have "currentStepIndex (navigateToStep 1 ?s) = 1"
    using navigateToStep_in_range [OF cur, of 1] len by simp
  moreover have "navigateToStep 1 (navigateToStep 1 ?s) = navigateToStep 1 ?s"
    using navigateToStep_noop_and_idempotent [of ?s ?tr 1] by simp
  ultimately show ?thesis using cur by simp
qed

section \<open>Trajectory viewer: the timeline\<close>

lemma map_of_map_values:
  "map_of (map (\<lambda>(k, v). (k, g v)) xs) k = map_option g (map_of xs k)"
  by (induction xs) auto

lemma currentTrajectory_with_totalSteps:
  "currentTrajectory (with_totalSteps f s) =
     map_option (\<lambda>trajectory. trajectory\<lparr>totalSteps := f trajectory\<rparr>) (currentTrajectory s)"
  by (simp add: currentTrajectory_def with_totalSteps_def map_of_map_values
      split: option.splits)

lemma navigateToStep_with_totalSteps:
  "navigateToStep i (with_totalSteps f s) = with_totalSteps f (navigateToStep i s)"
  apply (simp add: navigateToStep_current currentTrajectory_with_totalSteps
      split: option.splits)
  apply (simp add: with_totalSteps_def Let_def)
  done

text \<open>\<open>initializeTimeline\<close> in terms of the trajectory it looks up.\<close>

lemma initializeTimeline_current:
  "initializeTimeline s =
     (if timelineStepsContainer s = None then s
      else case currentTrajectory s of
        None \<Rightarrow> s
      | Some trajectory \<Rightarrow>
     (let total = int (length (steps trajectory));
          markers = map (\<lambda>i. StepMarker (percentage i total) i ''timeline-step'')
                      (map int [0 ..< length (steps trajectory)]);
          s1 = s\<lparr>timelineStepsContainer := Some (ProgressBar (Finite 0) # markers),
                 currentStepElement := assign 1 (currentStepElement s),
                 totalStepsElement := assign total (totalStepsElement s),
                 totalStepsValueElement := assign total (totalStepsValueElement s),
                 successValueElement :=
                   assign (if success trajectory then (''Yes'', ''metric-value success'')
                           else (''No'', ''metric-value failure''))
                     (successValueElement s),
                 reasoningScoreElement :=
                   assign (or_else (reasoningScore trajectory) ''N/A'') (reasoningScoreElement s),
                 completionTimeElement :=
                   assign (or_else (completionTime trajectory) ''N/A'') (completionTimeElement s)\<rparr>
      in navigateToStep 0 s1))"
  by (simp add: initializeTimeline_def currentTrajectory_def Let_def split: option.splits)

lemma with_totalSteps_elements:
  "timelineStepsContainer (with_totalSteps f s) = timelineStepsContainer s"
  "currentStepElement (with_totalSteps f s) = currentStepElement s"
  "totalStepsElement (with_totalSteps f s) = totalStepsElement s"
  "totalStepsValueElement (with_totalSteps f s) = totalStepsValueElement s"
  "successValueElement (with_totalSteps f s) = successValueElement s"
  "reasoningScoreElement (with_totalSteps f s) = reasoningScoreElement s"
  "completionTimeElement (with_totalSteps f s) = completionTimeElement s"
  by (simp_all add: with_totalSteps_def)

lemma with_totalSteps_update_elements:
  "with_totalSteps f (s\<lparr>timelineStepsContainer := a, currentStepElement := b,
        totalStepsElement := c, totalStepsValueElement := d, successValueElement := e,
        reasoningScoreElement := g, completionTimeElement := h\<rparr>)
   = (with_totalSteps f s)\<lparr>timelineStepsContainer := a, currentStepElement := b,
        totalStepsElement := c, totalStepsValueElement := d, successValueElement := e,
        reasoningScoreElement := g, completionTimeElement := h\<rparr>"
  by (simp add: with_totalSteps_def)

lemma initializeTimeline_with_totalSteps:
  "initializeTimeline (with_totalSteps f s) = with_totalSteps f (initializeTimeline s)"
  apply (simp only: initializeTimeline_current currentTrajectory_with_totalSteps
      with_totalSteps_elements)
  apply (cases "timelineStepsContainer s")
   apply simp
  apply (cases "currentTrajectory s")
   apply simp
  apply (simp add: Let_def navigateToStep_with_totalSteps [symmetric]
      with_totalSteps_update_elements)
  done

lemma markers_mark_steps:
  "length (filter is_marker (mark_steps i k cs)) = length (filter is_marker cs)"
  by (induction i k cs rule: mark_steps.induct) simp_all

lemma markers_set_progress:
  "length (filter is_marker (set_progress w cs)) = length (filter is_marker cs)"
  by (induction w cs rule: set_progress.induct) simp_all

lemma markers_built:
  "length (filter is_marker (map (\<lambda>i. StepMarker (g i) i c) xs)) = length xs"
  by (induction xs) simp_all

lemma currentTrajectory_update_elements:
  "currentTrajectory (s\<lparr>timelineStepsContainer := a, currentStepElement := b,
        totalStepsElement := c, totalStepsValueElement := d, successValueElement := e,
        reasoningScoreElement := g, completionTimeElement := h\<rparr>) = currentTrajectory s"
  by (simp add: currentTrajectory_def split: option.splits)

lemma initializeTimeline_counts:
  assumes "currentTrajectory s = Some tr" and "timelineStepsContainer s = Some old"
  shows "totalStepsElement (initializeTimeline s)
           = assign (int (length (steps tr))) (totalStepsElement s)"
    and "totalStepsValueElement (initializeTimeline s)
           = assign (int (length (steps tr))) (totalStepsValueElement s)"
    and "map_option (\<lambda>children. length (filter is_marker children))
           (timelineStepsContainer (initializeTimeline s)) = Some (length (steps tr))"
  using assms
  by (simp_all add: initializeTimeline_current Let_def navigateToStep_current
        currentTrajectory_update_elements markers_mark_steps markers_set_progress
        markers_built)

lemma initializeTimeline_single_step:
  assumes "currentTrajectory s = Some tr" and "timelineStepsContainer s = Some old"
    and "length (steps tr) = 1"
  shows "timelineStepsContainer (initializeTimeline s)
           = Some [ProgressBar NaN, StepMarker NaN 0 ''timeline-step active'']"
  using assms
  by (simp add: initializeTimeline_current Let_def navigateToStep_current
        currentTrajectory_update_elements percentage_def js_div_def js_times_100_def)

lemma percentage_finite:
  "n \<noteq> 1 \<Longrightarrow> percentage i n = Finite (of_int i / (of_int n - 1) * 100)"
  by (simp add: percentage_def js_div_def js_times_100_def)

text \<open>
  C2: for a trajectory with exactly one step, \<open>initializeTimeline\<close> returns (nothing throws),
  but the division \<open>0 / (1 - 1)\<close> is not guarded: the number written into the sole marker's
  \<open>style.left\<close>, and into the progress bar's \<open>style.width\<close>, is \<open>NaN\<close>, not \<open>0\<close>.
\<close>

theorem single_step_marker_is_NaN:
  assumes "currentTrajectory s = Some tr" and "timelineStepsContainer s = Some old"
    and "length (steps tr) = 1"
  shows "timelineStepsContainer (initializeTimeline s)
           = Some [ProgressBar NaN, StepMarker NaN 0 ''timeline-step active''] \<and>
         percentage 0 (int (length (steps tr))) \<noteq> Finite 0"
  using initializeTimeline_single_step [OF assms] assms(3)
  by (simp add: percentage_def js_div_def js_times_100_def)

theorem single_step_marker_witness:
  "currentTrajectory (example_viewer [example_step ''a''])
     = Some (example_trajectory [example_step ''a'']) \<and>
   timelineStepsContainer (example_viewer [example_step ''a'']) = Some [LoadingIndicator] \<and>
   length (steps (example_trajectory [example_step ''a''])) = 1 \<and>
   timelineStepsContainer (initializeTimeline (example_viewer [example_step ''a'']))
     = Some [ProgressBar NaN, StepMarker NaN 0 ''timeline-step active'']"
proof -
  let ?s = "example_viewer [example_step ''a'']"
  let ?tr = "example_trajectory [example_step ''a'']"
  have cur: "currentTrajectory ?s = Some ?tr" by (rule example_current)
  have el: "timelineStepsContainer ?s = Some [LoadingIndicator]"
    by (simp add: example_viewer_def example_page_def)
  have len: "length (steps ?tr) = 1" by (simp add: example_trajectory_def)
  from single_step_marker_is_NaN [OF cur el len] cur el len show ?thesis by simp
qed

text \<open>
  C10: the \<open>totalSteps\<close> field of a trajectory is never read. Replacing it by anything in
  every cached trajectory changes nothing else in what \<open>initializeTimeline\<close> and
  \<open>navigateToStep\<close> do; the step counter's total, the metrics panel's total and the number
  of timeline markers are the length of \<open>steps\<close>, and \<open>navigateToStep\<close> accepts exactly the
  indices below that length.
\<close>

theorem totalSteps_field_never_read:
  "initializeTimeline (with_totalSteps f s) = with_totalSteps f (initializeTimeline s) \<and>
   navigateToStep i (with_totalSteps f s) = with_totalSteps f (navigateToStep i s) \<and>
   (currentTrajectory s = Some tr \<and> timelineStepsContainer s = Some old \<longrightarrow>
      totalStepsElement (initializeTimeline s)
        = assign (int (length (steps tr))) (totalStepsElement s) \<and>
      totalStepsValueElement (initializeTimeline s)
        = assign (int (length (steps tr))) (totalStepsValueElement s) \<and>
      map_option (\<lambda>children. length (filter is_marker children))
        (timelineStepsContainer (initializeTimeline s)) = Some (length (steps tr))) \<and>
   (currentTrajectory s = Some tr \<longrightarrow>
      (0 \<le> i \<and> i < int (length (steps tr)) \<longrightarrow> currentStepIndex (navigateToStep i s) = i) \<and>
      (i < 0 \<or> int (length (steps tr)) \<le> i \<longrightarrow> navigateToStep i s = s))"
  using initializeTimeline_with_totalSteps [of f s] navigateToStep_with_totalSteps [of i f s]
    initializeTimeline_counts [of s tr old] navigateToStep_in_range [of s tr i]
    navigateToStep_out_of_range [of s tr i]
  by blast

theorem totalSteps_field_witness:
  "totalSteps (example_trajectory [example_step ''a'', example_step ''b'']) = 99 \<and>
   totalStepsElement
     (initializeTimeline (example_viewer [example_step ''a'', example_step ''b''])) = Some 2 \<and>
   totalStepsValueElement
     (initializeTimeline (example_viewer [example_step ''a'', example_step ''b''])) = Some 2 \<and>
   map_option (\<lambda>children. length (filter is_marker children))
     (timelineStepsContainer
        (initializeTimeline (example_viewer [example_step ''a'', example_step ''b''])))
     = Some 2 \<and>
   navigateToStep 2 (example_viewer [example_step ''a'', example_step ''b''])
     = example_viewer [example_step ''a'', example_step ''b'']"
proof -
  let ?s = "example_viewer [example_step ''a'', example_step ''b'']"
  let ?tr = "example_trajectory [example_step ''a'', example_step ''b'']"
  have cur: "currentTrajectory ?s = Some ?tr" by (rule example_current)
  have el: "timelineStepsContainer ?s = Some [LoadingIndicator]"
    "totalStepsElement ?s = Some 0" "totalStepsValueElement ?s = Some 0"
    by (simp_all add: example_viewer_def example_page_def)
  have len: "length (steps ?tr) = 2" "totalSteps ?tr = 99"
    by (simp_all add: example_trajectory_def)
  from totalSteps_field_never_read [of "\<lambda>t. 0" ?s 2 ?tr "[LoadingIndicator]"] cur el len
  show ?thesis by (simp add: assign_def)
qed


section \<open>Trajectory viewer: playback\<close>





















section \<open>Trajectory viewer: loading task data\<close>

lemma initializeTimeline_keeps_cache:
  "fetched (initializeTimeline s) = fetched s"
  "taskData (initializeTimeline s) = taskData s"
  "availableTasks (initializeTimeline s) = availableTasks s"
  by (simp_all add: initializeTimeline_def navigateToStep_keeps_selection navigateToStep_def
      Let_def split: option.splits)

lemma loadTaskData_availableTasks:
  "availableTasks (loadTaskData fetch taskId s) = availableTasks s"
  by (simp add: loadTaskData_def showLoading_def showErrorMessage_def Let_def
      initializeTimeline_keeps_cache split: option.splits response.splits)

lemma loadTaskData_fetched:
  "find (\<lambda>task. task_id task = taskId) (availableTasks s) = Some taskInfo \<Longrightarrow>
   fetched (loadTaskData fetch taskId s) = fetched s @ [dataFile taskInfo]"
  by (simp add: loadTaskData_def showLoading_def showErrorMessage_def Let_def
      initializeTimeline_keeps_cache split: option.splits response.splits)

lemma loadTaskData_stores:
  "find (\<lambda>task. task_id task = taskId) (availableTasks s) = Some taskInfo \<Longrightarrow>
   fetch (dataFile taskInfo) = Response True (Some data) \<Longrightarrow>
   map_of (taskData (loadTaskData fetch taskId s)) taskId = Some data"
  by (simp add: loadTaskData_def showLoading_def Let_def update_conv'
      initializeTimeline_keeps_cache split: option.splits)

lemma example_find:
  "find (\<lambda>task. task_id task = ''t1'') example_tasks =
     Some \<lparr> task_id = ''t1'', task_name = ''Task 1'', task_description = [],
            dataFile = ''/data/t1.json'', thumbnail = [] \<rparr>"
  by (simp add: example_tasks_def)

text \<open>
  C1, as the claim states it, fails: with the data of task \<open>t1\<close> already in \<open>taskData\<close>,
  loading \<open>t1\<close> again hands its data file to \<open>fetch\<close> a second time.
\<close>

theorem cached_task_is_fetched_again:
  "map_of (taskData (loadTaskData (example_fetch [example_step ''a'']) ''t1'' example_page))
     ''t1'' = Some (example_data [example_step ''a'']) \<and>
   fetched (loadTaskData (example_fetch [example_step ''a'']) ''t1'' example_page)
     = [index_url, ''/data/t1.json''] \<and>
   fetched (loadTaskData (example_fetch [example_step ''a'']) ''t1''
              (loadTaskData (example_fetch [example_step ''a'']) ''t1'' example_page))
     = [index_url, ''/data/t1.json'', ''/data/t1.json'']"
proof -
  let ?f = "example_fetch [example_step ''a'']"
  let ?t = "\<lparr> task_id = ''t1'', task_name = ''Task 1'', task_description = [],
              dataFile = ''/data/t1.json'', thumbnail = [] \<rparr>"
  have p: "availableTasks example_page = example_tasks" "fetched example_page = [index_url]"
    by (simp_all add: example_page_def)
  have f0: "find (\<lambda>task. task_id task = ''t1'') (availableTasks example_page) = Some ?t"
    by (simp add: p example_find)
  have f1: "find (\<lambda>task. task_id task = ''t1'')
              (availableTasks (loadTaskData ?f ''t1'' example_page)) = Some ?t"
    by (simp add: loadTaskData_availableTasks p example_find)
  have r: "?f (dataFile ?t) = Response True (Some (example_data [example_step ''a'']))"
    by (simp add: example_fetch_def)
  have "map_of (taskData (loadTaskData ?f ''t1'' example_page)) ''t1''
          = Some (example_data [example_step ''a''])"
    using f0 r by (rule loadTaskData_stores)
  moreover have "fetched (loadTaskData ?f ''t1'' example_page) = [index_url, ''/data/t1.json'']"
    using loadTaskData_fetched [OF f0, of ?f] by (simp add: p)
  moreover have "fetched (loadTaskData ?f ''t1'' (loadTaskData ?f ''t1'' example_page))
          = fetched (loadTaskData ?f ''t1'' example_page) @ [''/data/t1.json'']"
    using loadTaskData_fetched [OF f1, of ?f] by simp
  ultimately show ?thesis by simp
qed

text \<open>
  C1 (amended): for every task id found in the index, also one that was loaded before,
  \<open>loadTaskData\<close> fetches the task's data file again: what \<open>taskData\<close> holds makes no
  difference to the requests made, and on success the newly parsed result is stored under
  the task id, replacing an earlier entry.
\<close>

theorem loadTaskData_always_fetches:
  assumes "find (\<lambda>task. task_id task = taskId) (availableTasks s) = Some taskInfo"
  shows "fetched (loadTaskData fetch taskId s) = fetched s @ [dataFile taskInfo] \<and>
         fetched (loadTaskData fetch taskId (s\<lparr>taskData := cache\<rparr>))
           = fetched (loadTaskData fetch taskId s) \<and>
         (fetch (dataFile taskInfo) = Response True (Some data) \<longrightarrow>
            map_of (taskData (loadTaskData fetch taskId s)) taskId = Some data)"
proof -
  have "find (\<lambda>task. task_id task = taskId) (availableTasks (s\<lparr>taskData := cache\<rparr>))
          = Some taskInfo"
    using assms by simp
  from loadTaskData_fetched [OF this, of fetch] loadTaskData_fetched [OF assms, of fetch]
    loadTaskData_stores [OF assms, of fetch data]
  show ?thesis by simp
qed

theorem loadTaskData_always_fetches_witness:
  "map_of (taskData (example_viewer [example_step ''a''])) ''t1''
     = Some (example_data [example_step ''a'']) \<and>
   fetched (loadTaskData (example_fetch [example_step ''b'']) ''t1''
              (example_viewer [example_step ''a''])) = [index_url, ''/data/t1.json''] \<and>
   map_of (taskData (loadTaskData (example_fetch [example_step ''b'']) ''t1''
                       (example_viewer [example_step ''a''])))
     ''t1'' = Some (example_data [example_step ''b''])"
proof -
  let ?s = "example_viewer [example_step ''a'']"
  let ?t = "\<lparr> task_id = ''t1'', task_name = ''Task 1'', task_description = [],
              dataFile = ''/data/t1.json'', thumbnail = [] \<rparr>"
  have f: "find (\<lambda>task. task_id task = ''t1'') (availableTasks ?s) = Some ?t"
    by (simp add: example_viewer_def example_page_def example_find)
  have r: "example_fetch [example_step ''b''] (dataFile ?t)
             = Response True (Some (example_data [example_step ''b'']))"
    by (simp add: example_fetch_def)
  have c: "map_of (taskData ?s) ''t1'' = Some (example_data [example_step ''a''])"
    "fetched ?s = [index_url]"
    by (simp_all add: example_viewer_def example_page_def)
  from loadTaskData_always_fetches
         [OF f, where fetch = "example_fetch [example_step ''b'']"
            and data = "example_data [example_step ''b'']" and cache = "[]"] r c
  show ?thesis by simp
qed

text \<open>
  C8: when loading a task fails (its id is not in the index, the fetch is rejected, the
  response is not ok, or the body does not parse), \<open>taskData\<close> is exactly what it was, so
  every cached task keeps its entry and the failing task gets none; nothing of the viewer
  changes but the timeline container, which shows the error message, and the record of
  requests made.
\<close>

theorem failed_load_keeps_cache:
  assumes "load_fails fetch taskId s"
  shows "taskData (loadTaskData fetch taskId s) = taskData s \<and>
         loadTaskData fetch taskId s =
           s\<lparr>timelineStepsContainer :=
                assign [ErrorMessage (''Failed to load data for '' @ taskId
                                        @ ''. Please try again later.'')]
                  (timelineStepsContainer s),
              fetched :=
                fetched s @
                  (case find (\<lambda>task. task_id task = taskId) (availableTasks s) of
                     None \<Rightarrow> []
                   | Some taskInfo \<Rightarrow> [dataFile taskInfo])\<rparr>"
  using assms
  by (auto simp: load_fails_def loadTaskData_def showLoading_def showErrorMessage_def
      assign_def Let_def split: option.splits response.splits if_splits)

theorem failed_load_witness:
  "load_fails (example_fetch [example_step ''a'']) ''t2'' (example_viewer [example_step ''a'']) \<and>
   load_fails (example_fetch [example_step ''a'']) ''t3'' (example_viewer [example_step ''a'']) \<and>
   taskData (loadTaskData (example_fetch [example_step ''a'']) ''t2''
               (example_viewer [example_step ''a'']))
     = [(''t1'', example_data [example_step ''a''])] \<and>
   taskData (loadTaskData (example_fetch [example_step ''a'']) ''t3''
               (example_viewer [example_step ''a'']))
     = [(''t1'', example_data [example_step ''a''])]"
proof -
  let ?s = "example_viewer [example_step ''a'']"
  let ?f = "example_fetch [example_step ''a'']"
  have f2: "load_fails ?f ''t2'' ?s"
    by (simp add: load_fails_def example_viewer_def example_page_def example_tasks_def
        example_fetch_def)
  have f3: "load_fails ?f ''t3'' ?s"
    by (simp add: load_fails_def example_viewer_def example_page_def example_tasks_def)
  have c: "taskData ?s = [(''t1'', example_data [example_step ''a''])]"
    by (simp add: example_viewer_def example_page_def)
  from failed_load_keeps_cache [OF f2] failed_load_keeps_cache [OF f3] f2 f3 c
  show ?thesis by simp
qed

section \<open>Citation copy: the feedback timers\<close>












end
